theory Spec2Isabelle
  imports Complex_Main
begin

section \<open>Data model\<close>

text \<open>
  The tableau \<open>LP_matrix\<close> is a two-dimensional numpy array of floats, embedded as a list
  of rows over \<^typ>\<open>real\<close>: row 0 is the objective row, rows 1..m are the constraint rows,
  the last column is the right-hand side. A numpy array is rectangular, which
  \<open>rectangular\<close> records. Arithmetic is exact real arithmetic: rounding is not modelled,
  and a division by a zero pivot (which numpy answers with inf/nan and a warning) is the
  outcome \<open>NonFinite\<close>, where this embedding stops following the run. The \<open>verbose\<close>
  flag only prints and is left out.
\<close>

type_synonym matrix = "real list list"

definition rectangular :: "matrix \<Rightarrow> bool" where
  "rectangular T = list_all (\<lambda>row. length row = length (hd T)) T"

text \<open>
  \<open>bases\<close> is a one-dimensional numpy array; its dtype is checked by the engine, so the
  embedding keeps the two dtypes apart.
\<close>

datatype index_array = IntArray "int list" | FloatArray "real list"

text \<open>
  The exceptions of the source: the \<open>assert\<close> statements on entry (\<open>InvalidInput\<close>), the
  two \<open>ValueError\<close>s raised by the code itself (\<open>Unbounded\<close> in the engine, \<open>Infeasible\<close>
  in the orchestrator), numpy's \<open>IndexError\<close> for an index out of range or an index
  array that is not integer, and numpy's \<open>ValueError\<close> for operands whose shapes do not
  fit (\<open>ShapeError\<close>).
\<close>

datatype error = InvalidInput | Unbounded | Infeasible | IndexError | ShapeError | NonFinite

definition eps :: real where
  "eps = 1 / 10 ^ 10"

text \<open>The engine mutates the tableau and the basis in place: the state is the pair.\<close>

type_synonym state = "matrix \<times> int list"

section \<open>numpy indexing\<close>

text \<open>An integer index into an axis of size \<open>n\<close>: negative indices count from the end.\<close>

definition py_index :: "nat \<Rightarrow> int \<Rightarrow> nat option" where
  "py_index n i =
     (if 0 \<le> i \<and> i < int n then Some (nat i)
      else if - int n \<le> i \<and> i < 0 then Some (nat (i + int n))
      else None)"

text \<open>\<open>xs[idx]\<close> with an integer index array: a copy, or IndexError.\<close>

definition fancy_get :: "'a list \<Rightarrow> int list \<Rightarrow> 'a list option" where
  "fancy_get xs idx =
     (if list_all (\<lambda>i. py_index (length xs) i \<noteq> None) idx
      then Some (map (\<lambda>i. xs ! the (py_index (length xs) i)) idx)
      else None)"

text \<open>
  \<open>xs[idx] = vs\<close> with an integer index array and as many values: the assignments happen
  in order, so the last one wins at a repeated index.
\<close>

definition fancy_set :: "'a list \<Rightarrow> int list \<Rightarrow> 'a list \<Rightarrow> 'a list option" where
  "fancy_set xs idx vs =
     (if list_all (\<lambda>i. py_index (length xs) i \<noteq> None) idx
      then Some (fold (\<lambda>(i, v) acc. acc[the (py_index (length xs) i) := v]) (zip idx vs) xs)
      else None)"

section \<open>Matrices\<close>

definition column :: "matrix \<Rightarrow> nat \<Rightarrow> real list" where
  "column M j = map (\<lambda>row. row ! j) M"

text \<open>\<open>np.identity(k)\<close>.\<close>

definition identity :: "nat \<Rightarrow> matrix" where
  "identity k = map (\<lambda>i. map (\<lambda>j. if i = j then 1 else 0) [0..<k]) [0..<k]"

text \<open>\<open>M[:, j] = v\<close>.\<close>

definition set_column :: "matrix \<Rightarrow> nat \<Rightarrow> real list \<Rightarrow> matrix" where
  "set_column M j v = map (\<lambda>(row, x). row[j := x]) (zip M v)"

text \<open>\<open>np.dot(M, N)\<close> of two matrices, the rows of \<open>M\<close> as long as \<open>N\<close> has rows.\<close>

definition dot :: "matrix \<Rightarrow> matrix \<Rightarrow> matrix" where
  "dot M N =
     map (\<lambda>row. map (\<lambda>j. sum_list (map (\<lambda>k. row ! k * N ! k ! j) [0..<length N]))
                     [0..<length (hd N)]) M"

text \<open>
  \<open>np.dot(v, N)\<close> of a vector and a matrix with \<open>w\<close> columns, the vector as long
  as \<open>N\<close> has rows (\<open>N\<close> may have no row at all, so the width is given).
\<close>

definition vec_dot :: "nat \<Rightarrow> real list \<Rightarrow> matrix \<Rightarrow> real list" where
  "vec_dot w v N = map (\<lambda>j. sum_list (map (\<lambda>k. v ! k * N ! k ! j) [0..<length N])) [0..<w]"

section \<open>The ratio test\<close>

text \<open>
  The entries of \<open>bounds\<close> are floats that can be infinite: \<open>Fin\<close> a number, \<open>PInf\<close> the
  float inf, \<open>NaN\<close> not-a-number.

  \<open>np.divide(b, variable_coefs, where=mask)\<close> is called without \<open>out\<close>: numpy allocates
  the result and writes only the entries where the mask holds; the others keep whatever
  the fresh memory held. The embedding takes that content as the parameter \<open>junk\<close>, one
  value per row. (A junk value of minus infinity behaves as any \<open>Fin x\<close> with
  \<open>x < eps\<close>: the next statement overwrites both with inf.)
\<close>

datatype fval = Fin real | PInf | NaN

text \<open>The float comparison \<open>x < y\<close> against a number \<open>y\<close>: false for inf and for nan.\<close>

fun fv_less :: "fval \<Rightarrow> real \<Rightarrow> bool" where
  "fv_less (Fin x) y = (x < y)"
| "fv_less PInf y = False"
| "fv_less NaN y = False"

text \<open>The float comparison \<open>x >= y\<close>: false when either side is nan.\<close>

fun fv_ge :: "fval \<Rightarrow> fval \<Rightarrow> bool" where
  "fv_ge (Fin x) (Fin y) = (y \<le> x)"
| "fv_ge PInf (Fin y) = True"
| "fv_ge PInf PInf = True"
| "fv_ge (Fin x) PInf = False"
| "fv_ge NaN y = False"
| "fv_ge x NaN = False"

text \<open>
  \<open>np.argmin\<close>: the scan keeps the first minimum, moves on to a later entry only when
  that entry is not \<open>>=\<close> the current one, and stops at the first nan.
\<close>

fun argmin_scan :: "fval \<Rightarrow> nat \<Rightarrow> nat \<Rightarrow> fval list \<Rightarrow> nat" where
  "argmin_scan mp mi i [] = mi"
| "argmin_scan mp mi i (x # xs) =
     (if mp = NaN then mi
      else if \<not> fv_ge x mp then argmin_scan x i (Suc i) xs
      else argmin_scan mp mi (Suc i) xs)"

text \<open>\<open>np.argmin\<close> raises on an empty array; the engine never calls it on one.\<close>

definition argmin :: "fval list \<Rightarrow> nat" where
  "argmin xs = (case xs of [] \<Rightarrow> 0 | x # r \<Rightarrow> argmin_scan x 0 1 r)"

text \<open>
  Lines 43-44: \<open>bounds = np.divide(b, variable_coefs, where=(variable_coefs > 1e-10))\<close>,
  then \<open>bounds[bounds < 1e-10] = float('Inf')\<close>. A written entry is the exact
  quotient: the rounding of the float division, which can make two different ratios
  equal or overflow to inf, is not modelled.
\<close>

definition divide_where :: "(nat \<Rightarrow> fval) \<Rightarrow> real list \<Rightarrow> real list \<Rightarrow> fval list" where
  "divide_where junk b coefs =
     map (\<lambda>r. if coefs ! r > eps then Fin (b ! r / coefs ! r) else junk r) [0..<length b]"

definition ratio_bounds :: "(nat \<Rightarrow> fval) \<Rightarrow> real list \<Rightarrow> real list \<Rightarrow> fval list" where
  "ratio_bounds junk b coefs =
     map (\<lambda>x. if fv_less x eps then PInf else x) (divide_where junk b coefs)"

section \<open>The pivot\<close>

text \<open>
  Lines 51-55: the elementary matrix \<open>modify\<close> is the identity with column \<open>i_leave\<close>
  replaced by \<open>-LP_matrix[:, i_enter] / pivot\<close> and then its diagonal entry by
  \<open>1 / pivot\<close>; the tableau becomes \<open>np.dot(modify, LP_matrix)\<close>. The product is
  the exact one: in floating point each entry is rounded, so that the entering column
  of the program is a unit vector only up to rounding.
\<close>

definition modify_matrix :: "matrix \<Rightarrow> nat \<Rightarrow> nat \<Rightarrow> matrix" where
  "modify_matrix T i_leave i_enter =
     (let pivot = T ! i_leave ! i_enter;
          modify = set_column (identity (length T)) i_leave
                     (map (\<lambda>x. - x / pivot) (column T i_enter))
      in modify[i_leave := (modify ! i_leave)[i_leave := 1 / pivot]])"

definition pivot_update :: "matrix \<Rightarrow> nat \<Rightarrow> nat \<Rightarrow> matrix" where
  "pivot_update T i_leave i_enter = dot (modify_matrix T i_leave i_enter) T"

section \<open>solve_canonical_LP\<close>

text \<open>The three views taken at the head of each iteration (lines 27-29).\<close>

definition columns :: "matrix \<Rightarrow> nat" where
  "columns T = length (hd T)"

definition obj_coefs :: "matrix \<Rightarrow> real list" where
  "obj_coefs T = take (columns T - 1) (T ! 0)"

definition rhs :: "matrix \<Rightarrow> real list" where
  "rhs T = map (\<lambda>row. row ! (columns T - 1)) (tl T)"

definition neg_obj_coefs :: "matrix \<Rightarrow> nat list" where
  "neg_obj_coefs T = filter (\<lambda>j. obj_coefs T ! j < - eps) [0..<columns T - 1]"

datatype outcome = Return "real list \<times> real" | Raise error | Continue state

text \<open>
  One pass through the body of \<open>while True\<close> (lines 25-55), on a tableau with at least
  one row and one column and a basis with one entry per constraint row, which the entry
  checks guarantee. \<open>junk\<close> is the uninitialised content of this pass's \<open>bounds\<close>.
\<close>

definition iteration :: "(nat \<Rightarrow> fval) \<Rightarrow> state \<Rightarrow> outcome" where
  "iteration junk s =
     (case s of (T, bases) \<Rightarrow>
        if neg_obj_coefs T = [] then
          (case fancy_set (replicate (columns T - 1) 0) bases (rhs T) of
             None \<Rightarrow> Raise IndexError
           | Some solution \<Rightarrow> Return (solution, - (T ! 0 ! (columns T - 1))))
        else
          let i_enter = hd (neg_obj_coefs T);
              variable_coefs = column (tl T) i_enter;
              bounds = ratio_bounds junk (rhs T) variable_coefs
          in if list_all (\<lambda>x. x = PInf) bounds then Raise Unbounded
             else
               let i_leave = argmin bounds;
                   bases' = bases[i_leave := int i_enter];
                   pivot = T ! (i_leave + 1) ! i_enter
               in if pivot = 0 then Raise NonFinite
                  else Continue (pivot_update T (i_leave + 1) i_enter, bases'))"

text \<open>
  The loop has no bound of its own, so it runs on fuel: \<open>None\<close> is a run that has not
  returned within \<open>fuel\<close> passes. \<open>it\<close> is the source's pass counter; \<open>junk it\<close> is the
  uninitialised memory that pass \<open>it\<close> sees. A returning run hands back the final state
  too, since the caller keeps using the arrays.
\<close>

fun solve_loop ::
  "(nat \<Rightarrow> nat \<Rightarrow> fval) \<Rightarrow> nat \<Rightarrow> nat \<Rightarrow> state \<Rightarrow> (error + (real list \<times> real) \<times> state) option" where
  "solve_loop junk 0 it s = None"
| "solve_loop junk (Suc fuel) it s =
     (case iteration (junk (Suc it)) s of
        Return r \<Rightarrow> Some (Inr (r, s))
      | Raise e \<Rightarrow> Some (Inl e)
      | Continue s' \<Rightarrow> solve_loop junk fuel (Suc it) s')"

text \<open>
  The entry checks (lines 9-21). The two \<open>ndim\<close> asserts and the float dtype of the
  tableau hold by the types of the embedding. With no row at all \<open>rows - 1\<close> is \<open>-1\<close> and
  differs from every size; with no column, \<open>LP_matrix[1:, columns - 1]\<close> is out of range.
\<close>

definition preconditions :: "matrix \<Rightarrow> index_array \<Rightarrow> error + int list" where
  "preconditions T arr =
     (case arr of
        FloatArray _ \<Rightarrow> Inl InvalidInput
      | IntArray bases \<Rightarrow>
          if int (length T) - 1 \<noteq> int (length bases) then Inl InvalidInput
          else (case fancy_get (T ! 0) bases of
                  None \<Rightarrow> Inl IndexError
                | Some cb \<Rightarrow>
                    if \<not> list_all (\<lambda>x. \<bar>x\<bar> < eps) cb then Inl InvalidInput
                    else if columns T = 0 then Inl IndexError
                    else if \<not> list_all (\<lambda>x. x > eps) (rhs T) then Inl InvalidInput
                    else Inr bases))"

definition solve_canonical_LP ::
  "(nat \<Rightarrow> nat \<Rightarrow> fval) \<Rightarrow> nat \<Rightarrow> matrix \<Rightarrow> index_array \<Rightarrow> (error + (real list \<times> real) \<times> state) option" where
  "solve_canonical_LP junk fuel T arr =
     (case preconditions T arr of
        Inl e \<Rightarrow> Some (Inl e)
      | Inr bases \<Rightarrow> solve_loop junk fuel 0 (T, bases))"

section \<open>transform_canonical\<close>

text \<open>
  Lines 65-68. \<open>transformer = c_and_z[bases]\<close> is a copy taken before the objective row
  is written; \<open>np.dot(transformer, A_and_b)\<close> is a fresh vector, subtracted in place
  from row 0. An index array of floats, or an index out of range, is numpy's IndexError;
  a basis that has not one entry per constraint row makes \<open>np.dot\<close> raise. Every
  exception is raised before the in-place subtraction, so a failing call changes nothing.
  The call returns nothing: its result here is the exception raised, if any, and the
  two arrays as the call leaves them.
\<close>

definition transform_canonical ::
  "matrix \<Rightarrow> index_array \<Rightarrow> error option \<times> matrix \<times> index_array" where
  "transform_canonical T arr =
     (case T of
        [] \<Rightarrow> (Some IndexError, T, arr)
      | c_and_z # A_and_b \<Rightarrow>
          (case arr of
             FloatArray _ \<Rightarrow> (Some IndexError, T, arr)
           | IntArray bases \<Rightarrow>
               (case fancy_get c_and_z bases of
                  None \<Rightarrow> (Some IndexError, T, arr)
                | Some transformer \<Rightarrow>
                    if length transformer \<noteq> length A_and_b then (Some ShapeError, T, arr)
                    else (None,
                          map2 (-) c_and_z (vec_dot (length c_and_z) transformer A_and_b)
                            # A_and_b,
                          arr))))"

section \<open>solve_LP\<close>

text \<open>
  \<open>standardize\<close> is imported from a module that is not part of the sources at hand: it
  is a parameter of \<open>solve_LP\<close>, and its six results are the fields of
  \<open>standard_form\<close>. \<open>phase1_slack_vars\<close> is a numpy array (the code asks for its
  \<open>size\<close>); \<open>no_constraint_vars\<close> is tested for truth, as a Python list is. The
  matrix given to \<open>solve_LP\<close> has at least its objective row, from which the number
  of columns is read.
\<close>

record standard_form =
  sf_LP_matrix :: matrix
  sf_neg_constraint_vars :: "int list"
  sf_no_constraint_vars :: "int list"
  sf_nolimit_extra :: "int list"
  sf_phase1_slack_vars :: "int list"
  sf_bases :: index_array

text \<open>Lines 84-85: \<open>LP_matrix[0] = 0\<close>, then \<open>LP_matrix[0, phase1_slack_vars] = 1\<close>.\<close>

definition phase1_objective :: "matrix \<Rightarrow> int list \<Rightarrow> error + matrix" where
  "phase1_objective T phase1 =
     (case T of
        [] \<Rightarrow> Inl IndexError
      | row0 # rest \<Rightarrow>
          (case fancy_set (replicate (length row0) 0) phase1 (replicate (length phase1) 1) of
             None \<Rightarrow> Inl IndexError
           | Some row0' \<Rightarrow> Inr (row0' # rest)))"

text \<open>
  Lines 92-93: \<open>LP_matrix[0, :columns-1] = c\<close>, then
  \<open>LP_matrix[:, phase1_slack_vars] = 0\<close>.
\<close>

definition restore_objective :: "matrix \<Rightarrow> real list \<Rightarrow> matrix" where
  "restore_objective T c = (c @ drop (length c) (T ! 0)) # tl T"

definition clear_columns :: "matrix \<Rightarrow> int list \<Rightarrow> error + matrix" where
  "clear_columns T phase1 =
     (if list_all (\<lambda>row. fancy_set row phase1 (replicate (length phase1) 0) \<noteq> None) T
      then Inr (map (\<lambda>row. the (fancy_set row phase1 (replicate (length phase1) 0))) T)
      else Inl IndexError)"

text \<open>
  Lines 99-102. \<open>solution[a] -= solution[b]\<close> subtracts entry by entry when the two
  index lists are as long, broadcasts a single subtrahend, and raises otherwise.
  \<open>solution[:var_number]\<close> is a Python slice: a negative bound counts from the end.
\<close>

definition negate_at :: "real list \<Rightarrow> int list \<Rightarrow> error + real list" where
  "negate_at solution idx =
     (case fancy_get solution idx of
        None \<Rightarrow> Inl IndexError
      | Some vs \<Rightarrow>
          (case fancy_set solution idx (map uminus vs) of
             None \<Rightarrow> Inl IndexError
           | Some solution' \<Rightarrow> Inr solution'))"

definition subtract_at :: "real list \<Rightarrow> int list \<Rightarrow> int list \<Rightarrow> error + real list" where
  "subtract_at solution idx extra =
     (case fancy_get solution idx of
        None \<Rightarrow> Inl IndexError
      | Some vs \<Rightarrow>
          (case fancy_get solution extra of
             None \<Rightarrow> Inl IndexError
           | Some ws \<Rightarrow>
               if length ws = length vs then
                 (case fancy_set solution idx (map2 (-) vs ws) of
                    None \<Rightarrow> Inl IndexError
                  | Some solution' \<Rightarrow> Inr solution')
               else if length ws = 1 then
                 (case fancy_set solution idx (map (\<lambda>v. v - hd ws) vs) of
                    None \<Rightarrow> Inl IndexError
                  | Some solution' \<Rightarrow> Inr solution')
               else Inl ShapeError))"

definition slice_to :: "'a list \<Rightarrow> int \<Rightarrow> 'a list" where
  "slice_to xs k = (if 0 \<le> k then take (nat k) xs else take (nat (int (length xs) + k)) xs)"

definition postprocess :: "standard_form \<Rightarrow> int \<Rightarrow> real list \<times> real \<Rightarrow> error + real list \<times> real" where
  "postprocess sf var_number r =
     (case r of (solution, solution_value) \<Rightarrow>
        (case negate_at solution (sf_neg_constraint_vars sf) of
           Inl e \<Rightarrow> Inl e
         | Inr solution1 \<Rightarrow>
             (case (if sf_no_constraint_vars sf \<noteq> []
                    then subtract_at solution1 (sf_no_constraint_vars sf) (sf_nolimit_extra sf)
                    else Inr solution1) of
                Inl e \<Rightarrow> Inl e
              | Inr solution2 \<Rightarrow> Inr (slice_to solution2 var_number, solution_value))))"

text \<open>Line 98 onwards: phase 2 on the tableau and basis that phase 1 (if any) left.\<close>

definition phase2 ::
  "(nat \<Rightarrow> nat \<Rightarrow> fval) \<Rightarrow> nat \<Rightarrow> standard_form \<Rightarrow> int \<Rightarrow> matrix \<Rightarrow> index_array \<Rightarrow>
     (error + real list \<times> real) option" where
  "phase2 junk fuel sf var_number T arr =
     (case solve_canonical_LP junk fuel T arr of
        None \<Rightarrow> None
      | Some (Inl e) \<Rightarrow> Some (Inl e)
      | Some (Inr (r, s)) \<Rightarrow> Some (postprocess sf var_number r))"

text \<open>
  Lines 84-89, entered when \<open>phase1_slack_vars.size\<close> is not zero: the phase-1
  objective, its canonical form, and the engine's run on it.
\<close>

definition phase1_engine ::
  "(nat \<Rightarrow> nat \<Rightarrow> fval) \<Rightarrow> nat \<Rightarrow> standard_form \<Rightarrow>
     (error + (real list \<times> real) \<times> state) option" where
  "phase1_engine junk fuel sf =
     (case phase1_objective (sf_LP_matrix sf) (sf_phase1_slack_vars sf) of
        Inl e \<Rightarrow> Some (Inl e)
      | Inr T1 \<Rightarrow>
          (case transform_canonical T1 (sf_bases sf) of
             (Some e, _) \<Rightarrow> Some (Inl e)
           | (None, T2, arr) \<Rightarrow> solve_canonical_LP junk fuel T2 arr))"

text \<open>
  Lines 83-96: \<open>c\<close> is the copy of the true objective coefficients taken before phase
  1. The result is the error raised, or the tableau and basis handed to phase 2.
  \<open>None\<close> is a phase-1 engine run that has not returned within the fuel.
\<close>

definition phase1 ::
  "(nat \<Rightarrow> nat \<Rightarrow> fval) \<Rightarrow> nat \<Rightarrow> standard_form \<Rightarrow> (error + matrix \<times> index_array) option" where
  "phase1 junk fuel sf =
     (let T = sf_LP_matrix sf;
          c = take (columns T - 1) (T ! 0)
      in case phase1_engine junk fuel sf of
           None \<Rightarrow> None
         | Some (Inl e) \<Rightarrow> Some (Inl e)
         | Some (Inr ((solution, solution_value), (T3, bases3))) \<Rightarrow>
             if solution_value > eps then Some (Inl Infeasible)
             else (case clear_columns (restore_objective T3 c) (sf_phase1_slack_vars sf) of
                     Inl e \<Rightarrow> Some (Inl e)
                   | Inr T4 \<Rightarrow>
                       (case transform_canonical T4 (IntArray bases3) of
                          (Some e, _) \<Rightarrow> Some (Inl e)
                        | (None, s5) \<Rightarrow> Some (Inr s5))))"

text \<open>
  \<open>solve_LP\<close>. \<open>junk1\<close> and \<open>junk2\<close> are the uninitialised memory seen by the engine
  in phase 1 and in phase 2.
\<close>

definition solve_LP ::
  "(matrix \<Rightarrow> 'v \<Rightarrow> 'f \<Rightarrow> standard_form) \<Rightarrow> (nat \<Rightarrow> nat \<Rightarrow> fval) \<Rightarrow> (nat \<Rightarrow> nat \<Rightarrow> fval) \<Rightarrow> nat \<Rightarrow>
     matrix \<Rightarrow> 'v \<Rightarrow> 'f \<Rightarrow> (error + real list \<times> real) option" where
  "solve_LP standardize junk1 junk2 fuel LP_matrix var_constraints func_constraints =
     (let var_number = int (columns LP_matrix) - 1;
          sf = standardize LP_matrix var_constraints func_constraints
      in if sf_phase1_slack_vars sf \<noteq> [] then
           (case phase1 junk1 fuel sf of
              None \<Rightarrow> None
            | Some (Inl e) \<Rightarrow> Some (Inl e)
            | Some (Inr (T, arr)) \<Rightarrow> phase2 junk2 fuel sf var_number T arr)
         else phase2 junk2 fuel sf var_number (sf_LP_matrix sf) (sf_bases sf))"

section \<open>Predicates of the statements\<close>

text \<open>
  The column of the tableau that a basis entry names, and invariant (c) of the tableau:
  the constraint rows, restricted to the basic columns, are the identity matrix.
\<close>

definition basic_column :: "matrix \<Rightarrow> int \<Rightarrow> nat" where
  "basic_column T i = the (py_index (columns T) i)"

definition basis_identity :: "matrix \<Rightarrow> int list \<Rightarrow> bool" where
  "basis_identity T bases \<longleftrightarrow>
     (\<forall>r < length bases. py_index (columns T) (bases ! r) \<noteq> None \<and>
        (\<forall>k < length bases. tl T ! k ! basic_column T (bases ! r) = (if k = r then 1 else 0)))"

text \<open>
  Memory contents for concrete runs: \<open>clean_memory\<close> holds zeros, which line 44
  overwrites with inf.
\<close>

definition clean_memory :: "nat \<Rightarrow> nat \<Rightarrow> fval" where
  "clean_memory it r = Fin 0"

text \<open>
  Vocabulary of the ratio test: the entering column (line 41) and the ratio of a
  constraint row, right-hand side over entering-column coefficient.
\<close>

definition entering :: "matrix \<Rightarrow> nat" where
  "entering T = hd (neg_obj_coefs T)"

definition ratio :: "matrix \<Rightarrow> nat \<Rightarrow> real" where
  "ratio T r = rhs T ! r / (tl T ! r ! entering T)"

text \<open>The array \<open>bounds\<close> of a pass, after line 44.\<close>

definition bounds_of :: "(nat \<Rightarrow> fval) \<Rightarrow> matrix \<Rightarrow> fval list" where
  "bounds_of junk T = ratio_bounds junk (rhs T) (column (tl T) (entering T))"

text \<open>
  A canonical tableau with its basis: one basis entry per constraint row, each naming
  one of the \<open>n\<close> variable columns; the objective row is zero within \<open>eps\<close> at the
  basic columns (invariant (a)); the constraint rows restricted to the basic columns
  are the identity (invariant (c)). Invariant (b), on the right-hand sides, is not
  part of it: the statements that need it say so.
\<close>

definition canonical :: "matrix \<Rightarrow> int list \<Rightarrow> bool" where
  "canonical T bases \<longleftrightarrow>
     T \<noteq> [] \<and> rectangular T \<and> 0 < columns T \<and> length bases = length T - 1 \<and>
     basis_identity T bases \<and>
     (\<forall>r < length bases. 0 \<le> bases ! r \<and> bases ! r < int (columns T) - 1 \<and>
         \<bar>T ! 0 ! basic_column T (bases ! r)\<bar> < eps)"



text \<open>
  \<open>stale_memory\<close> holds \<open>0.5\<close>, as memory freed by an earlier array of ratios can.
\<close>

definition stale_memory :: "nat \<Rightarrow> nat \<Rightarrow> fval" where
  "stale_memory it r = Fin (1 / 2)"

text \<open>
  Every entry of the named columns is 0, in every row; and two tableaux of one shape.
\<close>

definition columns_zero :: "matrix \<Rightarrow> int list \<Rightarrow> bool" where
  "columns_zero T idx \<longleftrightarrow>
     (\<forall>row \<in> set T. \<forall>i \<in> set idx. row ! the (py_index (columns T) i) = 0)"

definition same_shape :: "matrix \<Rightarrow> matrix \<Rightarrow> bool" where
  "same_shape T' T \<longleftrightarrow> T' \<noteq> [] \<and> rectangular T' \<and> columns T' = columns T \<and> length T' = length T"

text \<open>
  Two results of \<open>standardize\<close> for concrete runs, both with one variable \<open>x\<close>, one
  surplus column and one auxiliary column (column 2, the initial basis): \<open>x \<ge> 1\<close>,
  which is feasible, and \<open>-x \<ge> 1\<close>, which is not.
\<close>

definition feasible_example :: "matrix \<Rightarrow> unit \<Rightarrow> unit \<Rightarrow> standard_form" where
  "feasible_example LP vc fc =
     \<lparr>sf_LP_matrix = [[1, 0, 0, 0], [1, - 1, 1, 1]], sf_neg_constraint_vars = [],
      sf_no_constraint_vars = [], sf_nolimit_extra = [], sf_phase1_slack_vars = [2],
      sf_bases = IntArray [2]\<rparr>"

definition infeasible_example :: "matrix \<Rightarrow> unit \<Rightarrow> unit \<Rightarrow> standard_form" where
  "infeasible_example LP vc fc =
     \<lparr>sf_LP_matrix = [[1, 0, 0, 0], [- 1, - 1, 1, 1]], sf_neg_constraint_vars = [],
      sf_no_constraint_vars = [], sf_nolimit_extra = [], sf_phase1_slack_vars = [2],
      sf_bases = IntArray [2]\<rparr>"

text \<open>
  A tableau of small integers, on which floating-point arithmetic is exact: maximise
  \<open>2 x1 + 3 x2\<close> subject to \<open>x1 + x2 \<le> 1\<close>, \<open>x1 + 2 x2 \<le> 1\<close>, \<open>x1 + 2 x2 \<le> 3\<close>, with the
  slack columns 2, 3, 4 as the basis; and the tableau after the first and after the
  second pivot of the engine.
\<close>

definition tied_example :: matrix where
  "tied_example =
     [[-2, -3, 0, 0, 0, 0],
      [ 1,  1, 1, 0, 0, 1],
      [ 1,  2, 0, 1, 0, 1],
      [ 1,  2, 0, 0, 1, 3]]"

definition tied_example_pass1 :: matrix where
  "tied_example_pass1 =
     [[0, -1,  2, 0, 0, 2],
      [1,  1,  1, 0, 0, 1],
      [0,  1, -1, 1, 0, 0],
      [0,  1, -1, 0, 1, 2]]"

definition tied_example_pass2 :: matrix where
  "tied_example_pass2 =
     [[ 1, 0,  3, 0, 0,  3],
      [ 1, 1,  1, 0, 0,  1],
      [-1, 0, -2, 1, 0, -1],
      [-1, 0, -2, 0, 1,  1]]"

section \<open>Auxiliary facts\<close>

lemma fancy_get_Some:
  "list_all (\<lambda>i. py_index (length xs) i \<noteq> None) idx \<Longrightarrow>
   fancy_get xs idx = Some (map (\<lambda>i. xs ! the (py_index (length xs) i)) idx)"
  by (simp add: fancy_get_def)

text \<open>The engine's loop raises nothing but IndexError, Unbounded and (here) NonFinite.\<close>

lemma iteration_Raise:
  "iteration junk s = Raise e \<Longrightarrow> e = IndexError \<or> e = Unbounded \<or> e = NonFinite"
  by (auto simp: iteration_def Let_def split: prod.splits if_splits option.splits)

lemma solve_loop_Inl:
  "solve_loop junk fuel it s = Some (Inl e) \<Longrightarrow> e = IndexError \<or> e = Unbounded \<or> e = NonFinite"
proof (induction fuel arbitrary: it s)
  case 0
  then show ?case by simp
next
  case (Suc fuel)
  show ?case
  proof (cases "iteration (junk (Suc it)) s")
    case (Return r)
    with Suc.prems show ?thesis by simp
  next
    case (Raise e')
    with Suc.prems have "e' = e" by simp
    with Raise show ?thesis using iteration_Raise by blast
  next
    case (Continue s')
    with Suc.prems have "solve_loop junk fuel (Suc it) s' = Some (Inl e)" by simp
    then show ?thesis by (rule Suc.IH)
  qed
qed

text \<open>The shape of the elementary matrix and of the product.\<close>

lemma rectangular_row: "rectangular T \<Longrightarrow> i < length T \<Longrightarrow> length (T ! i) = columns T"
  by (simp add: rectangular_def columns_def list_all_length)

lemma modify_matrix_length: "length (modify_matrix T l e) = length T"
  by (simp add: modify_matrix_def Let_def set_column_def identity_def column_def)

lemma pivot_update_length: "length (pivot_update T l e) = length T"
  by (simp add: pivot_update_def dot_def modify_matrix_length)

lemma pivot_update_row_length:
  "i < length T \<Longrightarrow> length (pivot_update T l e ! i) = columns T"
  by (simp add: pivot_update_def dot_def modify_matrix_length columns_def)

text \<open>\<open>np.argmin\<close> answers an index of the array.\<close>

lemma argmin_scan_less:
  "mi < i \<Longrightarrow> argmin_scan mp mi i xs < i + length xs"
proof (induction xs arbitrary: mp mi i)
  case Nil
  then show ?case by simp
next
  case (Cons x xs)
  have a: "argmin_scan x i (Suc i) xs < Suc i + length xs" by (rule Cons.IH) simp
  have b: "argmin_scan mp mi (Suc i) xs < Suc i + length xs"
    by (rule Cons.IH) (use Cons.prems in simp)
  show ?case using a b Cons.prems by simp
qed

lemma argmin_less: "xs \<noteq> [] \<Longrightarrow> argmin xs < length xs"
  using argmin_scan_less[of 0 1] by (cases xs) (auto simp: argmin_def)

text \<open>The entries of \<open>bounds\<close>, and the branch of a pass that has an entering column.\<close>

lemma rhs_length: "length (rhs T) = length T - 1"
  by (simp add: rhs_def)

lemma ratio_bounds_length: "length (ratio_bounds junk b coefs) = length b"
  by (simp add: ratio_bounds_def divide_where_def)

lemma bounds_of_length: "length (bounds_of junk T) = length T - 1"
  by (simp add: bounds_of_def ratio_bounds_length rhs_length)

lemma iteration_pivot_branch:
  assumes "neg_obj_coefs T \<noteq> []"
  shows "iteration junk (T, bases) =
           (if list_all (\<lambda>x. x = PInf) (bounds_of junk T) then Raise Unbounded
            else if T ! Suc (argmin (bounds_of junk T)) ! entering T = 0 then Raise NonFinite
            else Continue (pivot_update T (Suc (argmin (bounds_of junk T))) (entering T),
                           bases[argmin (bounds_of junk T) := int (entering T)]))"
  using assms by (simp add: iteration_def Let_def bounds_of_def entering_def)

text \<open>The shape of the tableau after a pivot.\<close>

lemma pivot_update_columns:
  assumes "T \<noteq> []"
  shows "columns (pivot_update T l e) = columns T"
proof -
  have "pivot_update T l e \<noteq> []"
    using assms pivot_update_length[of T l e] by auto
  then have "hd (pivot_update T l e) = pivot_update T l e ! 0" by (rule hd_conv_nth)
  then show ?thesis
    using assms pivot_update_row_length[of 0 T l e] by (simp add: columns_def[of "pivot_update T l e"])
qed

text \<open>The solution vector of a pass that returns.\<close>

lemma fold_set_length:
  "length (fold (\<lambda>(i, v) acc. acc[g i := v]) ps xs) = length xs"
  by (induction ps arbitrary: xs) (auto split: prod.splits)

lemma fold_set_other:
  "j \<notin> g ` fst ` set ps \<Longrightarrow> fold (\<lambda>(i, v) acc. acc[g i := v]) ps xs ! j = xs ! j"
  by (induction ps arbitrary: xs) (auto split: prod.splits)







text \<open>What a pass that pivots does to the tableau and the basis.\<close>

lemma pivot_update_rectangular:
  assumes "T \<noteq> []"
  shows "rectangular (pivot_update T l e)"
proof -
  have "length (pivot_update T l e ! i) = length (hd (pivot_update T l e))"
    if "i < length (pivot_update T l e)" for i
    using that pivot_update_columns[OF assms, of l e] pivot_update_row_length[of i T l e]
    by (simp add: pivot_update_length columns_def)
  then show ?thesis by (simp add: rectangular_def list_all_length)
qed

lemma pivot_step_shape:
  assumes "neg_obj_coefs T \<noteq> []" "iteration junk (T, bases) = Continue (T', bases')"
  shows "\<exists>l < length T - 1. bases' = bases[l := int (entering T)] \<and>
           T' = pivot_update T (Suc l) (entering T) \<and> T ! Suc l ! entering T \<noteq> 0"
proof -
  let ?l = "argmin (bounds_of junk T)"
  have ne: "\<not> list_all (\<lambda>x. x = PInf) (bounds_of junk T)"
    using assms by (auto simp: iteration_pivot_branch split: if_splits)
  then have "bounds_of junk T \<noteq> []" by auto
  then have l: "?l < length T - 1"
    using argmin_less[of "bounds_of junk T"] by (simp add: bounds_of_length)
  have "bases' = bases[?l := int (entering T)]" "T' = pivot_update T (Suc ?l) (entering T)"
    "T ! Suc ?l ! entering T \<noteq> 0"
    using assms by (auto simp: iteration_pivot_branch split: if_splits)
  with l show ?thesis by blast
qed




text \<open>Which exceptions each part of \<open>solve_LP\<close> can raise.\<close>

lemma transform_canonical_error:
  "transform_canonical T arr = (Some e, s) \<Longrightarrow> e = IndexError \<or> e = ShapeError"
  by (auto simp: transform_canonical_def split: list.splits index_array.splits option.splits if_splits)

lemma preconditions_error:
  "preconditions T arr = Inl e \<Longrightarrow> e = InvalidInput \<or> e = IndexError"
  by (auto simp: preconditions_def split: index_array.splits option.splits if_splits)

lemma solve_canonical_LP_error:
  "solve_canonical_LP junk fuel T arr = Some (Inl e) \<Longrightarrow> e \<noteq> Infeasible"
  using preconditions_error[of T arr e] solve_loop_Inl[of junk fuel 0 _ e]
  by (auto simp: solve_canonical_LP_def split: sum.splits)

lemma phase1_objective_error: "phase1_objective T idx = Inl e \<Longrightarrow> e = IndexError"
  by (auto simp: phase1_objective_def split: list.splits option.splits)

lemma clear_columns_error: "clear_columns T idx = Inl e \<Longrightarrow> e = IndexError"
  by (auto simp: clear_columns_def split: if_splits)

lemma postprocess_error: "postprocess sf k r = Inl e \<Longrightarrow> e = IndexError \<or> e = ShapeError"
  by (auto simp: postprocess_def negate_at_def subtract_at_def
      split: prod.splits sum.splits option.splits if_splits)

lemma phase2_error: "phase2 junk fuel sf k T arr = Some (Inl e) \<Longrightarrow> e \<noteq> Infeasible"
  using solve_canonical_LP_error[of junk fuel T arr e] postprocess_error[of sf k _ e]
  by (auto simp: phase2_def split: option.splits sum.splits prod.splits)

lemma phase1_engine_error: "phase1_engine junk fuel sf = Some (Inl e) \<Longrightarrow> e \<noteq> Infeasible"
  using solve_canonical_LP_error[of junk fuel _ _ e] phase1_objective_error[of _ _ e]
  by (auto simp: phase1_engine_def dest: transform_canonical_error
      split: sum.splits prod.splits option.splits)

lemma phase1_Infeasible:
  "phase1 junk fuel sf = Some (Inl Infeasible) \<longleftrightarrow>
     (\<exists>sol v s. phase1_engine junk fuel sf = Some (Inr ((sol, v), s)) \<and> v > eps)"
proof (cases "phase1_engine junk fuel sf")
  case None
  then show ?thesis by (simp add: phase1_def Let_def)
next
  case (Some res)
  show ?thesis
  proof (cases res)
    case (Inl e)
    then show ?thesis
      using Some phase1_engine_error[of junk fuel sf e] by (auto simp: phase1_def Let_def)
  next
    case (Inr ok)
    obtain sol v T3 bases3 where ok: "ok = ((sol, v), (T3, bases3))" by (metis surj_pair)
    show ?thesis
      using Some Inr ok clear_columns_error[of _ "sf_phase1_slack_vars sf" Infeasible]
      by (auto simp: phase1_def Let_def dest: transform_canonical_error
          split: sum.splits prod.splits option.splits)
  qed
qed

lemma solve_LP_Infeasible:
  assumes "sf_phase1_slack_vars (standardize LP vc fc) \<noteq> []"
  shows "solve_LP standardize junk1 junk2 fuel LP vc fc = Some (Inl Infeasible) \<longleftrightarrow>
     (\<exists>sol v s. phase1_engine junk1 fuel (standardize LP vc fc) = Some (Inr ((sol, v), s)) \<and> v > eps)"
proof -
  let ?sf = "standardize LP vc fc"
  have "solve_LP standardize junk1 junk2 fuel LP vc fc = Some (Inl Infeasible) \<longleftrightarrow>
        phase1 junk1 fuel ?sf = Some (Inl Infeasible)"
    using assms phase2_error[of junk2 fuel ?sf _ _ _ Infeasible]
    by (auto simp: solve_LP_def Let_def split: option.splits sum.splits prod.splits)
  then show ?thesis by (simp add: phase1_Infeasible)
qed

text \<open>The tableau keeps its shape through every step of \<open>solve_LP\<close>.\<close>

lemma rectangular_Cons:
  "rectangular (row # rest) \<longleftrightarrow> (\<forall>r \<in> set rest. length r = length row)"
  by (auto simp: rectangular_def list_all_iff)

lemma same_shape_refl: "T \<noteq> [] \<Longrightarrow> rectangular T \<Longrightarrow> same_shape T T"
  by (simp add: same_shape_def)

lemma same_shape_trans: "same_shape T'' T' \<Longrightarrow> same_shape T' T \<Longrightarrow> same_shape T'' T"
  by (simp add: same_shape_def)

lemma same_shape_pivot: "T \<noteq> [] \<Longrightarrow> same_shape (pivot_update T l e) T"
  using pivot_update_length[of T l e]
  by (auto simp: same_shape_def pivot_update_rectangular pivot_update_columns)

lemma iteration_Continue_neg:
  "iteration junk (T, bases) = Continue s' \<Longrightarrow> neg_obj_coefs T \<noteq> []"
  by (auto simp: iteration_def split: if_splits option.splits)

lemma solve_loop_shape:
  assumes "T \<noteq> []" "rectangular T"
    and "solve_loop junk fuel it (T, bases) = Some (Inr (r, (T', bases')))"
  shows "same_shape T' T"
  using assms
proof (induction fuel arbitrary: it T bases)
  case 0
  then show ?case by simp
next
  case (Suc fuel)
  show ?case
  proof (cases "iteration (junk (Suc it)) (T, bases)")
    case (Return x)
    with Suc.prems show ?thesis by (simp add: same_shape_refl)
  next
    case (Raise e)
    with Suc.prems show ?thesis by simp
  next
    case (Continue s')
    obtain T1 b1 where s': "s' = (T1, b1)" by (cases s')
    have neg: "neg_obj_coefs T \<noteq> []" using Continue by (rule iteration_Continue_neg)
    from pivot_step_shape[OF neg Continue[unfolded s']]
    obtain l where "T1 = pivot_update T (Suc l) (entering T)" by blast
    then have sh: "same_shape T1 T" using same_shape_pivot[OF Suc.prems(1)] by simp
    have run: "solve_loop junk fuel (Suc it) (T1, b1) = Some (Inr (r, (T', bases')))"
      using Suc.prems(3) Continue s' by simp
    have "same_shape T' T1"
      by (rule Suc.IH[OF _ _ run]) (use sh in \<open>simp_all add: same_shape_def\<close>)
    then show ?thesis using sh by (rule same_shape_trans)
  qed
qed

lemma solve_canonical_LP_shape:
  assumes "T \<noteq> []" "rectangular T"
    and "solve_canonical_LP junk fuel T arr = Some (Inr (r, (T', bases')))"
  shows "same_shape T' T"
proof (cases "preconditions T arr")
  case (Inl e)
  with assms(3) show ?thesis by (simp add: solve_canonical_LP_def)
next
  case (Inr b)
  with assms(3) have "solve_loop junk fuel 0 (T, b) = Some (Inr (r, (T', bases')))"
    by (simp add: solve_canonical_LP_def)
  from solve_loop_shape[OF assms(1,2) this] show ?thesis .
qed

lemma fancy_set_length: "fancy_set xs idx vs = Some ys \<Longrightarrow> length ys = length xs"
  by (auto simp: fancy_set_def fold_set_length split: if_splits)

lemma transform_canonical_shape:
  assumes "T \<noteq> []" "rectangular T"
  shows "same_shape (fst (snd (transform_canonical T arr))) T"
proof -
  obtain c A where T: "T = c # A" using assms(1) by (cases T) auto
  have "same_shape (map2 (-) c (vec_dot (length c) v A) # A) (c # A)" for v
    using assms(2) by (simp add: same_shape_def T rectangular_Cons columns_def vec_dot_def)
  then show ?thesis
    using assms
    by (auto simp: transform_canonical_def T same_shape_refl
        split: index_array.splits option.splits)
qed

lemma phase1_objective_shape:
  assumes "rectangular T" "phase1_objective T idx = Inr T1"
  shows "same_shape T1 T \<and> list_all (\<lambda>i. py_index (columns T) i \<noteq> None) idx"
proof -
  obtain row0 rest where T: "T = row0 # rest"
    using assms(2) by (cases T) (auto simp: phase1_objective_def)
  obtain row0' where r: "fancy_set (replicate (length row0) 0) idx (replicate (length idx) 1) = Some row0'"
    and T1: "T1 = row0' # rest"
    using assms(2) by (auto simp: phase1_objective_def T split: option.splits)
  have "length row0' = length row0" using fancy_set_length[OF r] by simp
  moreover have "list_all (\<lambda>i. py_index (length row0) i \<noteq> None) idx"
    using r by (auto simp: fancy_set_def split: if_splits)
  ultimately show ?thesis
    using assms(1) by (simp add: same_shape_def T T1 rectangular_Cons columns_def)
qed

text \<open>Clearing columns, and what \<open>transform_canonical\<close> does to cleared columns.\<close>

lemma fold_set_const:
  assumes "\<forall>p \<in> set ps. snd p = z" "j < length xs" "xs ! j = z \<or> j \<in> g ` fst ` set ps"
  shows "fold (\<lambda>(i, v) acc. acc[g i := v]) ps xs ! j = z"
  using assms
proof (induction ps arbitrary: xs)
  case Nil
  then show ?case by simp
next
  case (Cons a ps)
  obtain i v where a: "a = (i, v)" by (cases a)
  have v: "v = z" using Cons.prems(1) a by simp
  have "fold (\<lambda>(i, v) acc. acc[g i := v]) ps (xs[g i := v]) ! j = z"
  proof (rule Cons.IH)
    show "\<forall>p \<in> set ps. snd p = z" using Cons.prems(1) by simp
    show "j < length (xs[g i := v])" using Cons.prems(2) by simp
    show "xs[g i := v] ! j = z \<or> j \<in> g ` fst ` set ps"
      using Cons.prems(2,3) v a by (cases "j = g i") auto
  qed
  then show ?case by (simp add: a)
qed

lemma restore_objective_shape:
  assumes "same_shape T3 T" "length c = columns T - 1"
  shows "same_shape (restore_objective T3 c) T"
proof -
  obtain r0 rest where T3: "T3 = r0 # rest" using assms(1) by (cases T3) (auto simp: same_shape_def)
  have "length r0 = columns T" using assms(1) by (simp add: same_shape_def T3 columns_def)
  then have "length (c @ drop (length c) r0) = length r0" using assms(2) by simp
  then show ?thesis
    using assms(1) by (simp add: restore_objective_def same_shape_def T3 rectangular_Cons columns_def)
qed

lemma clear_columns_result:
  assumes sh: "same_shape R T" and valid: "list_all (\<lambda>i. py_index (columns T) i \<noteq> None) idx"
  shows "\<exists>T4. clear_columns R idx = Inr T4 \<and> same_shape T4 T \<and> columns_zero T4 idx \<and>
           (\<forall>k < length R. \<forall>j < columns T.
              j \<notin> (\<lambda>i. the (py_index (columns T) i)) ` set idx \<longrightarrow> T4 ! k ! j = R ! k ! j)"
proof -
  let ?w = "columns T"
  let ?g = "\<lambda>i. the (py_index ?w i)"
  let ?clear = "\<lambda>row. fold (\<lambda>(i, v) acc. acc[?g i := v]) (zip idx (replicate (length idx) 0)) row"
  have rows: "length row = ?w" if "row \<in> set R" for row
    using sh that by (auto simp: same_shape_def rectangular_def list_all_iff columns_def)
  have set_row: "fancy_set row idx (replicate (length idx) 0) = Some (?clear row)"
    if "row \<in> set R" for row :: "real list"
    using valid rows[OF that] by (simp add: fancy_set_def)
  let ?T4 = "map ?clear R"
  have run: "clear_columns R idx = Inr ?T4"
    using set_row by (auto simp: clear_columns_def list_all_iff)
  have ne: "R \<noteq> []" using sh by (simp add: same_shape_def)
  have len: "length (?clear row) = length row" for row :: "real list"
    by (rule fold_set_length)
  have cols4: "columns ?T4 = ?w"
  proof -
    have "hd ?T4 = ?clear (hd R)" using ne by (simp add: hd_map)
    then have "columns ?T4 = length (?clear (hd R))" unfolding columns_def[of ?T4] by simp
    also have "\<dots> = length (hd R)" by (rule len)
    also have "\<dots> = ?w" using rows[of "hd R"] ne by simp
    finally show ?thesis .
  qed
  have sh4: "same_shape ?T4 T"
  proof -
    have "length row' = length (hd ?T4)" if "row' \<in> set ?T4" for row'
    proof -
      from that obtain row where "row \<in> set R" "row' = ?clear row" by auto
      then have "length row' = ?w" using rows len by simp
      then show ?thesis using cols4 by (simp add: columns_def[of ?T4])
    qed
    then have "rectangular ?T4" by (simp add: rectangular_def list_all_iff)
    then show ?thesis using sh ne cols4 by (simp add: same_shape_def)
  qed
  have gi: "?g i < ?w" if "i \<in> set idx" for i
    using valid that by (auto simp: list_all_iff py_index_def split: if_splits)
  have zero: "?clear row ! ?g i = 0" if "row \<in> set R" "i \<in> set idx" for row i
  proof (rule fold_set_const)
    show "\<forall>p \<in> set (zip idx (replicate (length idx) (0::real))). snd p = 0"
      by (auto dest: set_zip_rightD)
    show "?g i < length row" using gi[OF that(2)] rows[OF that(1)] by simp
    have "i \<in> fst ` set (zip idx (replicate (length idx) (0::real)))"
      using that(2) by (simp add: map_fst_zip flip: set_map)
    then show "row ! ?g i = 0 \<or> ?g i \<in> ?g ` fst ` set (zip idx (replicate (length idx) (0::real)))"
      by blast
  qed
  have cz: "columns_zero ?T4 idx"
    unfolding columns_zero_def cols4 using zero by auto
  have keep: "?T4 ! k ! j = R ! k ! j"
    if "k < length R" "j \<notin> ?g ` set idx" for k j
  proof -
    have "j \<notin> ?g ` fst ` set (zip idx (replicate (length idx) (0::real)))"
      using that(2) by (auto dest: set_zip_leftD)
    then have "?clear (R ! k) ! j = R ! k ! j" by (rule fold_set_other)
    then show ?thesis using that(1) by simp
  qed
  show ?thesis using run sh4 cz keep by blast
qed

lemma transform_canonical_columns_zero:
  assumes sh: "same_shape T4 T" and cz: "columns_zero T4 idx"
    and valid: "list_all (\<lambda>i. py_index (columns T) i \<noteq> None) idx"
  shows "columns_zero (fst (snd (transform_canonical T4 arr))) idx"
proof -
  obtain c A where T4: "T4 = c # A" using sh by (cases T4) (auto simp: same_shape_def)
  have w: "columns T4 = length c" by (simp add: T4 columns_def)
  have wT: "columns T = length c" using sh w by (simp add: same_shape_def)
  have "columns_zero (map2 (-) c (vec_dot (length c) v A) # A) idx" for v
    unfolding columns_zero_def
  proof (intro ballI)
    fix row i
    assume row: "row \<in> set (map2 (-) c (vec_dot (length c) v A) # A)" and i: "i \<in> set idx"
    let ?T5 = "map2 (-) c (vec_dot (length c) v A) # A"
    have w5: "columns ?T5 = length c" by (simp add: columns_def vec_dot_def)
    let ?j = "the (py_index (length c) i)"
    have j: "?j < length c"
      using valid i by (auto simp: wT list_all_iff py_index_def split: if_splits)
    have c0: "c ! ?j = 0" using cz i by (simp add: columns_zero_def T4 columns_def)
    have A0: "A ! k ! ?j = 0" if "k < length A" for k
      using cz i that by (simp add: columns_zero_def T4 columns_def)
    have "vec_dot (length c) v A ! ?j = sum_list (map (\<lambda>k. v ! k * A ! k ! ?j) [0..<length A])"
      using j by (simp add: vec_dot_def)
    also have "\<dots> = sum_list (map (\<lambda>k. 0) [0..<length A])"
      by (rule arg_cong[where f = sum_list], rule map_cong[OF refl]) (simp add: A0)
    also have "\<dots> = 0" by simp
    finally have new0: "map2 (-) c (vec_dot (length c) v A) ! ?j = 0"
      using j c0 by (simp add: vec_dot_def)
    from row consider "row = map2 (-) c (vec_dot (length c) v A)" | "row \<in> set A" by auto
    then show "row ! the (py_index (columns ?T5) i) = 0"
    proof cases
      case 1
      then show ?thesis using new0 by (simp only: w5)
    next
      case 2
      then have "row ! ?j = 0" using cz i by (simp add: columns_zero_def T4 columns_def)
      then show ?thesis by (simp only: w5)
    qed
  qed
  then show ?thesis
    using cz by (auto simp: transform_canonical_def T4 split: index_array.splits option.splits)
qed

section \<open>transform_canonical: what it writes and what it leaves\<close>

text \<open>
  C6. On a tableau whose constraint rows, restricted to the basic columns, are the
  identity matrix (with one basis entry per constraint row), \<open>transform_canonical\<close>
  succeeds, leaves the constraint rows as they are and replaces the objective row by
  the old objective row minus the sum, over the constraint rows, of the old objective
  coefficient at the row's basic column times that row; the coefficients are those of
  the objective row before the write. Afterwards the objective row is zero at every
  basic column.
\<close>

theorem transform_canonical_zeroes_basic_columns:
  assumes ne: "T \<noteq> []" and rect: "rectangular T"
    and len: "length bases = length T - 1"
    and ident: "basis_identity T bases"
  shows "\<exists>row0. transform_canonical T (IntArray bases) = (None, row0 # tl T, IntArray bases) \<and>
           length row0 = columns T \<and>
           (\<forall>j < columns T. row0 ! j =
              hd T ! j - (\<Sum>r < length bases. hd T ! basic_column T (bases ! r) * tl T ! r ! j)) \<and>
           (\<forall>r < length bases. row0 ! basic_column T (bases ! r) = 0)"
proof -
  obtain c A where T: "T = c # A" using ne by (cases T) auto
  let ?n = "length c"
  have cols: "columns T = ?n" by (simp add: columns_def T)
  have valid: "list_all (\<lambda>i. py_index ?n i \<noteq> None) bases"
    using ident unfolding basis_identity_def cols list_all_length by blast
  let ?tr = "map (\<lambda>i. c ! the (py_index ?n i)) bases"
  let ?row0 = "map2 (-) c (vec_dot ?n ?tr A)"
  have lenA: "length bases = length A" using len T by simp
  have run: "transform_canonical T (IntArray bases) = (None, ?row0 # tl T, IntArray bases)"
    by (simp add: transform_canonical_def T fancy_get_Some[OF valid] lenA)
  have l0: "length ?row0 = ?n" by (simp add: vec_dot_def)
  have entry: "?row0 ! j = c ! j - (\<Sum>r < length bases. c ! basic_column T (bases ! r) * A ! r ! j)"
    if "j < ?n" for j
  proof -
    have "?row0 ! j = c ! j - sum_list (map (\<lambda>k. ?tr ! k * A ! k ! j) [0..<length A])"
      using that by (simp add: vec_dot_def)
    also have "sum_list (map (\<lambda>k. ?tr ! k * A ! k ! j) [0..<length A])
         = (\<Sum>r\<in>{0..<length A}. ?tr ! r * A ! r ! j)"
      by (simp add: interv_sum_list_conv_sum_set_nat)
    also have "\<dots> = (\<Sum>r < length bases. c ! basic_column T (bases ! r) * A ! r ! j)"
      unfolding lenA by (rule sum.cong) (auto simp: basic_column_def cols lenA[symmetric])
    finally show ?thesis .
  qed
  have zero: "?row0 ! basic_column T (bases ! r) = 0" if r: "r < length bases" for r
  proof -
    let ?b = "basic_column T (bases ! r)"
    have "py_index ?n (bases ! r) \<noteq> None" using valid r by (simp add: list_all_length)
    then have b: "?b < ?n"
      by (auto simp: basic_column_def cols py_index_def split: if_splits)
    have unit: "A ! k ! ?b = (if k = r then 1 else 0)" if "k < length bases" for k
      using ident r that unfolding basis_identity_def by (simp add: T)
    have "(\<Sum>k < length bases. c ! basic_column T (bases ! k) * A ! k ! ?b)
        = (\<Sum>k < length bases. if k = r then c ! ?b else 0)"
      by (rule sum.cong) (auto simp: unit)
    also have "\<dots> = c ! ?b" using r by (simp add: sum.delta)
    finally show ?thesis using entry[OF b] by simp
  qed
  have sel: "hd T = c" "tl T = A" by (simp_all add: T)
  show ?thesis
  proof (intro exI[of _ ?row0] conjI allI impI)
    show "transform_canonical T (IntArray bases) = (None, ?row0 # tl T, IntArray bases)"
      by (rule run)
    show "length ?row0 = columns T" using l0 cols by simp
  next
    fix j assume "j < columns T"
    then show "?row0 ! j =
        hd T ! j - (\<Sum>r < length bases. hd T ! basic_column T (bases ! r) * tl T ! r ! j)"
      using entry[of j] by (simp only: cols sel)
  next
    fix r assume "r < length bases"
    then show "?row0 ! basic_column T (bases ! r) = 0" by (rule zero)
  qed
qed

theorem transform_canonical_zeroes_basic_columns_witness:
  "\<exists>row0. transform_canonical [[0, 0, 1, 1, 0], [1, 1, 1, 0, 4], [1, 3, 0, 1, 6]] (IntArray [2, 3])
            = (None, row0 # [[1, 1, 1, 0, 4], [1, 3, 0, 1, 6]], IntArray [2, 3]) \<and>
          row0 ! 2 = 0 \<and> row0 ! 3 = 0"
proof -
  let ?T = "[[0, 0, 1, 1, 0], [1, 1, 1, 0, 4], [1, 3, 0, 1, 6 :: real]]"
  have r: "rectangular ?T" by (simp add: rectangular_def)
  have i: "basis_identity ?T [2, 3]"
    by (simp add: basis_identity_def basic_column_def columns_def py_index_def less_Suc_eq)
  have l: "length [2, 3 :: int] = length ?T - 1" by simp
  from transform_canonical_zeroes_basic_columns[OF _ r l i]
  obtain row0 where a: "transform_canonical ?T (IntArray [2, 3]) = (None, row0 # tl ?T, IntArray [2, 3])"
    and z: "\<forall>r < length [2, 3 :: int]. row0 ! basic_column ?T ([2, 3] ! r) = 0" by auto
  from z have "row0 ! basic_column ?T 2 = 0" "row0 ! basic_column ?T 3 = 0" by (auto simp: less_Suc_eq)
  then have "row0 ! 2 = 0 \<and> row0 ! 3 = 0" by (simp add: basic_column_def columns_def py_index_def)
  with a show ?thesis by auto
qed

text \<open>
  C10. Whatever the arguments, and whether the call succeeds or raises,
  \<open>transform_canonical\<close> leaves every row but row 0 and the basis array as they were,
  and the tableau keeps its number of rows.
\<close>

theorem transform_canonical_frame:
  "tl (fst (snd (transform_canonical T arr))) = tl T \<and>
   snd (snd (transform_canonical T arr)) = arr \<and>
   length (fst (snd (transform_canonical T arr))) = length T"
  by (simp add: transform_canonical_def split: list.split index_array.split option.split)

section \<open>The entry checks\<close>

text \<open>
  C8, as the claim states it, fails: a tableau with the identity in its basic column, a
  zero reduced cost there and a right-hand side equal to 0 is rejected with
  InvalidInput, since line 20 asserts that every right-hand side is greater than
  \<open>1e-10\<close>.
\<close>

theorem zero_rhs_rejected:
  "basis_identity [[0, 0], [1, 0]] [0] \<and> \<bar>[[0, 0], [1, 0 :: real]] ! 0 ! 0\<bar> < eps \<and>
   rhs [[0, 0], [1, 0]] = [0] \<and>
   solve_canonical_LP clean_memory 5 [[0, 0], [1, 0]] (IntArray [0]) = Some (Inl InvalidInput)"
  by (simp add: basis_identity_def basic_column_def columns_def py_index_def eps_def rhs_def
      solve_canonical_LP_def preconditions_def fancy_get_def)

text \<open>
  C8, amended. \<open>solve_canonical_LP\<close> raises InvalidInput exactly when the basis is not
  an integer array, or its size is not the number of rows minus one, or (the basis
  indices being in range) the objective row is not below \<open>eps\<close> in absolute value at
  some basic column or some constraint row's right-hand side is not greater than
  \<open>eps\<close>. It does so before any pivot: the run with no fuel for a single pass of the
  loop raises it too. Every other tableau is accepted without InvalidInput.
\<close>

theorem invalid_input_exactly:
  "(solve_canonical_LP junk fuel T arr = Some (Inl InvalidInput) \<longleftrightarrow>
      (case arr of
         FloatArray xs \<Rightarrow> True
       | IntArray bases \<Rightarrow>
           int (length T) - 1 \<noteq> int (length bases) \<or>
           (list_all (\<lambda>i. py_index (length (T ! 0)) i \<noteq> None) bases \<and>
            (\<not> list_all (\<lambda>i. \<bar>T ! 0 ! the (py_index (length (T ! 0)) i)\<bar> < eps) bases \<or>
             (columns T \<noteq> 0 \<and> \<not> list_all (\<lambda>x. x > eps) (rhs T)))))) \<and>
   (solve_canonical_LP junk fuel T arr = Some (Inl InvalidInput) \<longrightarrow>
      solve_canonical_LP junk 0 T arr = Some (Inl InvalidInput))"
proof -
  have loop: "solve_loop junk f it s \<noteq> Some (Inl InvalidInput)" for f it s
    using solve_loop_Inl[of junk f it s InvalidInput] by auto
  have pre: "solve_canonical_LP junk f T arr = Some (Inl InvalidInput) \<longleftrightarrow>
             preconditions T arr = Inl InvalidInput" for f
    by (cases "preconditions T arr") (auto simp: solve_canonical_LP_def loop)
  have char: "preconditions T arr = Inl InvalidInput \<longleftrightarrow>
      (case arr of
         FloatArray xs \<Rightarrow> True
       | IntArray bases \<Rightarrow>
           int (length T) - 1 \<noteq> int (length bases) \<or>
           (list_all (\<lambda>i. py_index (length (T ! 0)) i \<noteq> None) bases \<and>
            (\<not> list_all (\<lambda>i. \<bar>T ! 0 ! the (py_index (length (T ! 0)) i)\<bar> < eps) bases \<or>
             (columns T \<noteq> 0 \<and> \<not> list_all (\<lambda>x. x > eps) (rhs T)))))"
    by (cases arr) (auto simp: preconditions_def fancy_get_def list_all_iff)
  show ?thesis using pre char by simp
qed

theorem invalid_input_exactly_witness:
  "solve_canonical_LP clean_memory 5 [[0, 0], [1, 0]] (IntArray [0]) = Some (Inl InvalidInput) \<and>
   solve_canonical_LP clean_memory 0 [[0, 0], [1, 0]] (IntArray [0]) = Some (Inl InvalidInput) \<and>
   solve_canonical_LP clean_memory 5 [[0, 0], [1, 1]] (IntArray [0]) \<noteq> Some (Inl InvalidInput)"
  using invalid_input_exactly[of clean_memory 5 "[[0, 0], [1, 0]]" "IntArray [0]"]
        invalid_input_exactly[of clean_memory 5 "[[0, 0], [1, 1]]" "IntArray [0]"]
  by (simp add: py_index_def eps_def rhs_def columns_def)

section \<open>Uninitialised entries of the ratio array\<close>

text \<open>The tableau of the next statement is canonical.\<close>

lemma uninitialised_bounds_input_canonical:
  "canonical [[-1, 0, 0, 0], [1, 1, 0, 1], [1 / (2 * 10 ^ 10), 0, 1, 1]] [1, 2]"
  by (simp add: canonical_def rectangular_def columns_def basis_identity_def basic_column_def
      py_index_def eps_def less_Suc_eq)

text \<open>
  C9. The claim asks for the same result on equal inputs. The code reads entries of
  \<open>bounds\<close> that \<open>np.divide\<close> has not written (rows whose coefficient is at most \<open>eps\<close>),
  so its result depends on what the fresh memory holds. On the canonical tableau
  below, constraint row 1 has the coefficient \<open>5e-11\<close> in the entering column and is
  not written. With memory that holds 0 the engine pivots on row 0 and returns the
  solution \<open>(1, 0, 1 - 5e-11)\<close> with value \<open>-1\<close>; with memory that holds \<open>0.5\<close> it
  pivots on row 1 and returns \<open>(2e10, 1 - 2e10, 0)\<close> with value \<open>-2e10\<close>.
\<close>

theorem uninitialised_bounds_change_result:
  "solve_canonical_LP clean_memory 5
      [[-1, 0, 0, 0], [1, 1, 0, 1], [1 / (2 * 10 ^ 10), 0, 1, 1]] (IntArray [1, 2])
     = Some (Inr (([1, 0, 1 - 1 / (2 * 10 ^ 10)], - 1),
                  ([[0, 1, 0, 1], [1, 1, 0, 1], [0, - (1 / (2 * 10 ^ 10)), 1, 1 - 1 / (2 * 10 ^ 10)]],
                   [0, 2]))) \<and>
   solve_canonical_LP stale_memory 5
      [[-1, 0, 0, 0], [1, 1, 0, 1], [1 / (2 * 10 ^ 10), 0, 1, 1]] (IntArray [1, 2])
     = Some (Inr (([2 * 10 ^ 10, 1 - 2 * 10 ^ 10, 0], - (2 * 10 ^ 10)),
                  ([[0, 0, 2 * 10 ^ 10, 2 * 10 ^ 10], [0, 1, - (2 * 10 ^ 10), 1 - 2 * 10 ^ 10],
                    [1, 0, 2 * 10 ^ 10, 2 * 10 ^ 10]],
                   [1, 0])))"
  by code_simp

section \<open>solve_LP: from phase 1 to phase 2\<close>

text \<open>
  C7. When auxiliary columns are present, \<open>solve_LP\<close> fails with Infeasible if and only
  if the phase-1 run of the engine returns and its value exceeds \<open>eps\<close>. When that
  value does not exceed \<open>eps\<close>, the tableau that phase 1 left gets the saved objective
  coefficients back in row 0 and 0 in every row of every auxiliary column;
  \<open>transform_canonical\<close> is applied to it (and leaves the auxiliary columns 0, so none
  of them has a negative objective coefficient to enter on); and the result of
  \<open>solve_LP\<close> is that of phase 2 on the outcome, or the exception of that call.
\<close>

theorem phase1_handoff:
  assumes sf: "sf = standardize LP vc fc" and T: "T = sf_LP_matrix sf"
    and aux: "aux = sf_phase1_slack_vars sf" "aux \<noteq> []"
    and rect: "rectangular T"
  shows
   "(solve_LP standardize junk1 junk2 fuel LP vc fc = Some (Inl Infeasible) \<longleftrightarrow>
       (\<exists>sol v s. phase1_engine junk1 fuel sf = Some (Inr ((sol, v), s)) \<and> v > eps)) \<and>
    (\<forall>sol v T3 bases3.
       phase1_engine junk1 fuel sf = Some (Inr ((sol, v), (T3, bases3))) \<and> \<not> v > eps \<longrightarrow>
       (\<exists>T4. clear_columns (restore_objective T3 (take (columns T - 1) (T ! 0))) aux = Inr T4 \<and>
             (\<forall>j < columns T - 1.
                j \<notin> (\<lambda>i. the (py_index (columns T) i)) ` set aux \<longrightarrow> T4 ! 0 ! j = T ! 0 ! j) \<and>
             columns_zero T4 aux \<and>
             columns_zero (fst (snd (transform_canonical T4 (IntArray bases3)))) aux \<and>
             solve_LP standardize junk1 junk2 fuel LP vc fc =
               (case transform_canonical T4 (IntArray bases3) of
                  (Some e, _) \<Rightarrow> Some (Inl e)
                | (None, T5, arr5) \<Rightarrow> phase2 junk2 fuel sf (int (columns LP) - 1) T5 arr5)))"
proof -
  have 1: "solve_LP standardize junk1 junk2 fuel LP vc fc = Some (Inl Infeasible) \<longleftrightarrow>
       (\<exists>sol v s. phase1_engine junk1 fuel sf = Some (Inr ((sol, v), s)) \<and> v > eps)"
    unfolding sf by (rule solve_LP_Infeasible) (use aux sf in simp)
  have 2: "\<exists>T4. clear_columns (restore_objective T3 (take (columns T - 1) (T ! 0))) aux = Inr T4 \<and>
             (\<forall>j < columns T - 1.
                j \<notin> (\<lambda>i. the (py_index (columns T) i)) ` set aux \<longrightarrow> T4 ! 0 ! j = T ! 0 ! j) \<and>
             columns_zero T4 aux \<and>
             columns_zero (fst (snd (transform_canonical T4 (IntArray bases3)))) aux \<and>
             solve_LP standardize junk1 junk2 fuel LP vc fc =
               (case transform_canonical T4 (IntArray bases3) of
                  (Some e, _) \<Rightarrow> Some (Inl e)
                | (None, T5, arr5) \<Rightarrow> phase2 junk2 fuel sf (int (columns LP) - 1) T5 arr5)"
    if engine: "phase1_engine junk1 fuel sf = Some (Inr ((sol, v), (T3, bases3)))"
      and small: "\<not> v > eps" for sol v T3 bases3
  proof -
    let ?c = "take (columns T - 1) (T ! 0)"
    from engine obtain T1 T2 arr where
      p1: "phase1_objective T aux = Inr T1"
      and tc: "transform_canonical T1 (sf_bases sf) = (None, T2, arr)"
      and run: "solve_canonical_LP junk1 fuel T2 arr = Some (Inr ((sol, v), (T3, bases3)))"
      by (auto simp: phase1_engine_def T aux split: sum.splits prod.splits option.splits)
    from phase1_objective_shape[OF rect p1]
    have sh1: "same_shape T1 T" and valid: "list_all (\<lambda>i. py_index (columns T) i \<noteq> None) aux"
      by simp_all
    have ne: "T \<noteq> []" using sh1 by (auto simp: same_shape_def)
    have "same_shape (fst (snd (transform_canonical T1 (sf_bases sf)))) T1"
      by (rule transform_canonical_shape) (use sh1 in \<open>simp_all add: same_shape_def\<close>)
    then have sh2: "same_shape T2 T1" using tc by simp
    have sh3: "same_shape T3 T2"
      by (rule solve_canonical_LP_shape[OF _ _ run]) (use sh2 in \<open>simp_all add: same_shape_def\<close>)
    have sh3': "same_shape T3 T" using sh3 sh2 sh1 by (blast intro: same_shape_trans)
    have "length (T ! 0) = columns T" using rect ne by (simp add: rectangular_row)
    then have lc: "length ?c = columns T - 1" by simp
    let ?R = "restore_objective T3 ?c"
    have shR: "same_shape ?R T" by (rule restore_objective_shape[OF sh3' lc])
    from clear_columns_result[OF shR valid]
    obtain T4 where cl: "clear_columns ?R aux = Inr T4" and sh4: "same_shape T4 T"
      and cz: "columns_zero T4 aux"
      and keep: "\<forall>k < length ?R. \<forall>j < columns T.
              j \<notin> (\<lambda>i. the (py_index (columns T) i)) ` set aux \<longrightarrow> T4 ! k ! j = ?R ! k ! j"
      by blast
    have obj: "T4 ! 0 ! j = T ! 0 ! j"
      if "j < columns T - 1" "j \<notin> (\<lambda>i. the (py_index (columns T) i)) ` set aux" for j
    proof -
      have "T4 ! 0 ! j = ?R ! 0 ! j" using keep that by (simp add: restore_objective_def)
      also have "\<dots> = ?c ! j" using that(1) lc by (simp add: restore_objective_def nth_append)
      also have "\<dots> = T ! 0 ! j" using that(1) by simp
      finally show ?thesis .
    qed
    have cz5: "columns_zero (fst (snd (transform_canonical T4 (IntArray bases3)))) aux"
      by (rule transform_canonical_columns_zero[OF sh4 cz valid])
    have res: "solve_LP standardize junk1 junk2 fuel LP vc fc =
               (case transform_canonical T4 (IntArray bases3) of
                  (Some e, _) \<Rightarrow> Some (Inl e)
                | (None, T5, arr5) \<Rightarrow> phase2 junk2 fuel sf (int (columns LP) - 1) T5 arr5)"
      using engine small cl aux
      by (simp add: solve_LP_def Let_def sf[symmetric] phase1_def T[symmetric]
          split: prod.splits option.splits)
    show ?thesis using cl obj cz cz5 res by blast
  qed
  show ?thesis using 1 2 by blast
qed

theorem phase1_handoff_witness:
  "solve_LP infeasible_example clean_memory clean_memory 5 [[1, 0], [1, 1]] () ()
     = Some (Inl Infeasible) \<and>
   solve_LP feasible_example clean_memory clean_memory 5 [[1, 0], [1, 1]] () ()
     = Some (Inr ([1], 1))"
proof -
  let ?LP = "[[1, 0], [1, 1 :: real]]"
  let ?si = "infeasible_example ?LP () ()"
  let ?sf = "feasible_example ?LP () ()"
  have ei: "phase1_engine clean_memory 5 ?si
              = Some (Inr (([0, 0, 1], 1), ([[1, 1, 0, - 1], [- 1, - 1, 1, 1]], [2])))"
    by code_simp
  have big: "(1::real) > eps" by (simp add: eps_def)
  have auxi: "sf_phase1_slack_vars ?si \<noteq> []" by (simp add: infeasible_example_def)
  have recti: "rectangular (sf_LP_matrix ?si)" by (simp add: infeasible_example_def rectangular_def)
  from phase1_handoff[of ?si infeasible_example ?LP "()" "()" "sf_LP_matrix ?si"
      "sf_phase1_slack_vars ?si" clean_memory clean_memory 5, OF refl refl refl auxi recti] ei big
  have 1: "solve_LP infeasible_example clean_memory clean_memory 5 ?LP () () = Some (Inl Infeasible)"
    by blast
  have ef: "phase1_engine clean_memory 5 ?sf
              = Some (Inr (([1, 0, 0], 0), ([[0, 0, 1, 0], [1, - 1, 1, 1]], [0])))"
    by code_simp
  have small: "\<not> (0::real) > eps" by (simp add: eps_def)
  have auxf: "sf_phase1_slack_vars ?sf \<noteq> []" by (simp add: feasible_example_def)
  have rectf: "rectangular (sf_LP_matrix ?sf)" by (simp add: feasible_example_def rectangular_def)
  have cl: "clear_columns (restore_objective [[0, 0, 1, 0], [1, - 1, 1, 1]]
                (take (columns (sf_LP_matrix ?sf) - 1) (sf_LP_matrix ?sf ! 0)))
              (sf_phase1_slack_vars ?sf) = Inr [[1, 0, 0, 0], [1, - 1, 0, 1]]"
    by code_simp
  have p2: "(case transform_canonical [[1, 0, 0, 0], [1, - 1, 0, 1]] (IntArray [0]) of
               (Some e, _) \<Rightarrow> Some (Inl e)
             | (None, T5, arr5) \<Rightarrow> phase2 clean_memory 5 ?sf (int (columns ?LP) - 1) T5 arr5)
            = Some (Inr ([1], 1))"
    by code_simp
  from phase1_handoff[of ?sf feasible_example ?LP "()" "()" "sf_LP_matrix ?sf"
      "sf_phase1_slack_vars ?sf" clean_memory clean_memory 5, OF refl refl refl auxf rectf] ef small
  obtain T4 where
    "clear_columns (restore_objective [[0, 0, 1, 0], [1, - 1, 1, 1]]
                (take (columns (sf_LP_matrix ?sf) - 1) (sf_LP_matrix ?sf ! 0)))
              (sf_phase1_slack_vars ?sf) = Inr T4"
    and res: "solve_LP feasible_example clean_memory clean_memory 5 ?LP () () =
               (case transform_canonical T4 (IntArray [0]) of
                  (Some e, _) \<Rightarrow> Some (Inl e)
                | (None, T5, arr5) \<Rightarrow> phase2 clean_memory 5 ?sf (int (columns ?LP) - 1) T5 arr5)"
    by blast
  then have "T4 = [[1, 0, 0, 0], [1, - 1, 0, 1]]" using cl by simp
  with res p2 have 2: "solve_LP feasible_example clean_memory clean_memory 5 ?LP () () = Some (Inr ([1], 1))"
    by simp
  from 1 2 show ?thesis by blast
qed

section \<open>The ratio test: ratios below the tolerance\<close>

text \<open>
  C2. The claim asks for Unbounded exactly when no constraint row has an
  entering-column coefficient above \<open>eps\<close>. Line 44, which turns the unwritten entries
  of \<open>bounds\<close> into inf, does the same to every written ratio below \<open>1e-10\<close>. On the
  tableau below (maximise \<open>x\<close> subject to \<open>6 x \<le> 3e-10\<close>, a bounded problem that the
  entry checks accept) the only constraint row has coefficient 6 in the entering
  column, its ratio \<open>5e-11\<close> is replaced by inf, and the engine raises Unbounded in
  its first pass instead of pivoting.
\<close>

theorem small_ratio_unbounded:
  "preconditions [[-1, 0, 0], [6, 1, 3 / 10 ^ 10]] (IntArray [1]) = Inr [1] \<and>
   neg_obj_coefs [[-1, 0, 0], [6, 1, 3 / 10 ^ 10]] \<noteq> [] \<and>
   tl [[-1, 0, 0], [6, 1, 3 / 10 ^ 10]] ! 0 ! entering [[-1, 0, 0], [6, 1, 3 / 10 ^ 10]] > eps \<and>
   iteration (clean_memory 1) ([[-1, 0, 0], [6, 1, 3 / 10 ^ 10]], [1]) = Raise Unbounded \<and>
   solve_canonical_LP clean_memory 5 [[-1, 0, 0], [6, 1, 3 / 10 ^ 10]] (IntArray [1])
     = Some (Inl Unbounded)"
  by code_simp

text \<open>
  C3. The claim asks for the leaving row to have the least ratio among the rows whose
  coefficient exceeds \<open>eps\<close>. On \<open>tied_example\<close> the first pass pivots on row 0 and
  leaves row 1 with right-hand side 0. In the second pass column 1 enters, all three
  constraint rows have coefficient 1 there, and the ratios are 1, 0 and 2: row 1 has
  the least. Line 44 replaces its ratio 0 by inf, and the engine makes row 0 leave
  (basis entry 0 is replaced), whatever the fresh memory holds, no entry of \<open>bounds\<close>
  being unwritten.
\<close>

theorem degenerate_row_passed_over:
  "preconditions tied_example (IntArray [2, 3, 4]) = Inr [2, 3, 4] \<and>
   iteration (clean_memory 1) (tied_example, [2, 3, 4]) = Continue (tied_example_pass1, [0, 3, 4]) \<and>
   entering tied_example_pass1 = 1 \<and>
   tl tied_example_pass1 ! 0 ! 1 > eps \<and>
   tl tied_example_pass1 ! 1 ! 1 > eps \<and>
   tl tied_example_pass1 ! 2 ! 1 > eps \<and>
   ratio tied_example_pass1 1 < ratio tied_example_pass1 0 \<and>
   ratio tied_example_pass1 1 < ratio tied_example_pass1 2 \<and>
   iteration (clean_memory 2) (tied_example_pass1, [0, 3, 4]) = Continue (tied_example_pass2, [1, 3, 4]) \<and>
   iteration (stale_memory 2) (tied_example_pass1, [0, 3, 4]) = Continue (tied_example_pass2, [1, 3, 4])"
  by code_simp

section \<open>Feasibility of the right-hand sides\<close>

text \<open>
  C5. The claim asks for right-hand sides of at least \<open>-eps\<close> after every pivot. On
  \<open>tied_example\<close>, which the entry checks accept, the second pivot (the one of the
  previous statement) passes over the row with ratio 0 and drives its right-hand
  side from 0 to \<open>-1\<close>. The engine then returns \<open>x = (0, 1)\<close> with slack \<open>-1\<close> in the
  second constraint and objective 3, where the feasible optimum is \<open>x = (1, 0)\<close>
  with objective 2.
\<close>

theorem degenerate_pivot_infeasible:
  "solve_canonical_LP clean_memory 5 tied_example (IntArray [2, 3, 4])
     = Some (Inr (([0, 1, 0, - 1, 1], - 3), (tied_example_pass2, [1, 3, 4]))) \<and>
   solve_canonical_LP stale_memory 5 tied_example (IntArray [2, 3, 4])
     = Some (Inr (([0, 1, 0, - 1, 1], - 3), (tied_example_pass2, [1, 3, 4]))) \<and>
   rhs tied_example = [1, 1, 3] \<and>
   rhs tied_example_pass1 = [1, 0, 2] \<and>
   rhs tied_example_pass2 = [1, - 1, 1] \<and>
   rhs tied_example_pass2 ! 1 < - eps"
  by code_simp

section \<open>When the engine returns, and what it returns\<close>



end
